theory Spec2Isabelle
  imports Complex_Main
begin

unbundle bit_operations_syntax

section \<open>Python values and errors\<close>

text \<open>
  The driver in \<^verbatim>\<open>chipdrive.py\<close> computes with Python numbers. Integers are
  \<open>int\<close>. Python floats are idealised as exact rationals (\<open>rat\<close>): the rounding error of
  a float operation is not modelled. A quotient by zero raises, as in Python.
  Every exception the source can raise is a constructor of \<open>error\<close>.
\<close>

datatype error =
    SystemExit int
  | KeyError string
  | NameError string
  | ZeroDivisionError
  | AssertionError
  | ValueError
  | ArgumentMismatch

text \<open>\<^verbatim>\<open>d[k]\<close> on a dict.\<close>

definition getitem :: "(string \<rightharpoonup> 'a) \<Rightarrow> string \<Rightarrow> error + 'a" where
  "getitem d k = (case d k of None \<Rightarrow> Inl (KeyError k) | Some v \<Rightarrow> Inr v)"

text \<open>\<^verbatim>\<open>a / b\<close>: true division.\<close>

definition truediv :: "rat \<Rightarrow> rat \<Rightarrow> error + rat" where
  "truediv a b = (if b = 0 then Inl ZeroDivisionError else Inr (a / b))"

text \<open>\<^verbatim>\<open>round(x)\<close> with one argument: the nearest integer, a tie going to the even one.\<close>

definition py_round :: "rat \<Rightarrow> int" where
  "py_round x =
     (let f = \<lfloor>x\<rfloor>; d = x - of_int f
      in if d < 1 / 2 then f
         else if 1 / 2 < d then f + 1
         else if even f then f else f + 1)"

text \<open>\<^verbatim>\<open>int(x)\<close>: truncation towards zero.\<close>

definition py_int :: "rat \<Rightarrow> int" where
  "py_int x = (if 0 \<le> x then \<lfloor>x\<rfloor> else \<lceil>x\<rceil>)"

text \<open>
  Resolution of a name in a method body: the names bound there, in the order given.
  A name that is bound nowhere raises \<^verbatim>\<open>NameError\<close>.
\<close>

definition lookup_name :: "(string \<times> 'v) list \<Rightarrow> string \<Rightarrow> error + 'v" where
  "lookup_name env n = (case map_of env n of None \<Rightarrow> Inl (NameError n) | Some v \<Rightarrow> Inr v)"

section \<open>The world outside the process\<close>

text \<open>
  Everything the driver does to its surroundings is recorded, in program order, as a
  list of events: log records, sleeps, the level of the motor-driver enable line and the
  register operations handed to the bus driver.
\<close>

datatype event =
    Critical string
  | Sleep rat
  | EnableOutput bool
  | WriteInt string int
  | ReadInt string int
  | ReadWriteMultiple "(string \<times> int) list" string
  | PrintCheckStatus int
  | PrintLoc rat int
  | PrintRampStatus "string list"
  | PrintReached rat int "string list"

record world =
  events :: "event list"
  enabled :: bool
  ntrans :: nat

text \<open>
  The chip's side of the bus: \<open>chip k\<close> is the status byte and the register value that
  the \<open>k\<close>-th register operation of a run is answered with.
\<close>

type_synonym chip = "nat \<Rightarrow> int \<times> int"

text \<open>The handle of the pigpio daemon; \<^verbatim>\<open>connected\<close> is its only attribute read here.\<close>

record pi =
  connected :: bool

section \<open>The driver object\<close>

text \<open>
  An instance of class \<^verbatim>\<open>tmc5130\<close>, together with the world it drives. The fields
  \<open>lastwritten\<close> and \<open>status\<close> are those of the bus driver \<^verbatim>\<open>self.md\<close>.
\<close>

record tmc5130 = world +
  mypio :: bool
  settings :: "string \<rightharpoonup> rat"
  uSC :: int
  clockfrequ :: rat
  ustepsPerRev :: rat
  tconst :: rat
  maxV :: int
  lastwritten :: "string \<rightharpoonup> int"
  status :: int

definition motor28BYJ_48 :: "string \<rightharpoonup> rat" where
  "motor28BYJ_48 = [''stepsPerRev'' \<mapsto> 2048 / 12, ''maxrpm'' \<mapsto> 220]"

subsection \<open>The bus driver\<close>

text \<open>
  Modelled from the spec: the module \<^verbatim>\<open>trinamicDriver\<close> (class
  \<^verbatim>\<open>TrinamicDriver\<close>) is not part of the source at hand. One register operation
  takes the chip's next answer and stores its status byte. A read caches the value
  read, a write caches the value written, not the echoed one. The frame codec, the
  one-transaction lag of the wire and the trailing flush lie below this model.
\<close>

definition answer :: "chip \<Rightarrow> 'a tmc5130_scheme \<Rightarrow> int \<times> 'a tmc5130_scheme" where
  "answer chip s =
     (snd (chip (ntrans s)),
      s\<lparr>ntrans := Suc (ntrans s), status := fst (chip (ntrans s))\<rparr>)"

text \<open>
  Modelled from the spec: \<^verbatim>\<open>enableOutput\<close> sets the motor-driver enable line; it is
  no register operation.
\<close>

definition enableOutput :: "bool \<Rightarrow> 'a tmc5130_scheme \<Rightarrow> 'a tmc5130_scheme" where
  "enableOutput b s = s\<lparr>events := events s @ [EnableOutput b], enabled := b\<rparr>"

text \<open>Modelled from the spec: \<^verbatim>\<open>writeInt\<close>, a batch of one written register.\<close>

definition writeInt :: "chip \<Rightarrow> string \<Rightarrow> int \<Rightarrow> 'a tmc5130_scheme \<Rightarrow> 'a tmc5130_scheme" where
  "writeInt chip name v s =
     (let (_, s1) = answer chip s
      in s1\<lparr>events := events s1 @ [WriteInt name v],
            lastwritten := (lastwritten s1)(name \<mapsto> v)\<rparr>)"

text \<open>Modelled from the spec: \<^verbatim>\<open>readInt\<close>, a batch of one register read.\<close>

definition readInt :: "chip \<Rightarrow> string \<Rightarrow> 'a tmc5130_scheme \<Rightarrow> int \<times> 'a tmc5130_scheme" where
  "readInt chip name s =
     (let (v, s1) = answer chip s
      in (v, s1\<lparr>events := events s1 @ [ReadInt name v],
                lastwritten := (lastwritten s1)(name \<mapsto> v)\<rparr>))"

text \<open>
  Modelled from the spec: one operation of a batch under its access tag. \<^verbatim>\<open>R\<close>
  reads, \<^verbatim>\<open>W\<close> writes; \<^verbatim>\<open>U\<close> (read-modify) reads the register and then writes
  the value given. The source passes no other tag.
\<close>

definition batch_op ::
  "chip \<Rightarrow> string \<times> int \<Rightarrow> char \<Rightarrow> 'a tmc5130_scheme \<Rightarrow> (string \<times> int) \<times> 'a tmc5130_scheme" where
  "batch_op chip op tag s =
     (let (v, s1) = answer chip s;
          r = (if tag = CHR ''R'' then v else snd op)
      in ((fst op, r), s1\<lparr>lastwritten := (lastwritten s1)(fst op \<mapsto> r)\<rparr>))"

fun batch_ops ::
  "chip \<Rightarrow> (string \<times> int) list \<Rightarrow> string \<Rightarrow> 'a tmc5130_scheme
     \<Rightarrow> (string \<times> int) list \<times> 'a tmc5130_scheme" where
  "batch_ops chip (op # ops) (tag # tags) s =
     (let (r, s1) = batch_op chip op tag s;
          (rs, s2) = batch_ops chip ops tags s1
      in (r # rs, s2))"
| "batch_ops chip _ _ s = ([], s)"

text \<open>
  Modelled from the spec: \<^verbatim>\<open>readWriteMultiple\<close>. The number of operations must be
  the number of access tags, otherwise the call fails before any bus activity. The
  result maps each register name to its resulting value.
\<close>

definition readWriteMultiple ::
  "chip \<Rightarrow> (string \<times> int) list \<Rightarrow> string \<Rightarrow> 'a tmc5130_scheme
     \<Rightarrow> (error + (string \<times> int) list) \<times> 'a tmc5130_scheme" where
  "readWriteMultiple chip ops tags s =
     (if length ops \<noteq> length tags then (Inl ArgumentMismatch, s)
      else let s0 = s\<lparr>events := events s @ [ReadWriteMultiple ops tags]\<rparr>;
               (rs, s1) = batch_ops chip ops tags s0
           in (Inr rs, s1))"

subsection \<open>Construction\<close>

text \<open>\<^verbatim>\<open>RPMtoVREG\<close>: the register value (e.g. VMAX) for a given rpm.\<close>

definition RPMtoVREG :: "'a tmc5130_scheme \<Rightarrow> rat \<Rightarrow> error + rat" where
  "RPMtoVREG self rpm = truediv (rpm * ustepsPerRev self / 60) (tconst self)"

definition regsettings :: "int \<Rightarrow> (string \<times> int) list" where
  "regsettings maxv =
     [(''GSTAT'', 0),
      (''GCONF'', 4),
      (''CHOPCONF'', 0x000100C3),
      (''IHOLD_IRUN'', 0x00080F0A),
      (''TPOWERDOWN'', 0x0000000A),
      (''TPWMTHRS'', 0x000001F4),
      (''VSTART'', 1),
      (''A1'', 1500),
      (''V1'', 100000),
      (''AMAX'', 1000),
      (''VMAX'', maxv),
      (''DMAX'', 1100),
      (''D1'', 600),
      (''VSTOP'', 10),
      (''RAMPMODE'', 0)]"

definition regactions :: string where
  "regactions = ''RUWWWWWWWWWWWWW''"

text \<open>
  \<^verbatim>\<open>__init__\<close>. \<open>pigio\<close> is the argument of that name and \<open>daemon\<close> the handle that
  \<^verbatim>\<open>pigpio.pi()\<close> returns when none is given. A construction that raises yields no
  object: the result is the error and the world as the constructor left it. The
  configuration of the logging module is not modelled. The bus driver starts with an
  empty cache.
\<close>

definition init ::
  "rat \<Rightarrow> (string \<rightharpoonup> rat) \<Rightarrow> pi option \<Rightarrow> pi \<Rightarrow> chip \<Rightarrow> world \<Rightarrow> error \<times> world + tmc5130" where
  "init clockfrequ0 settings0 pigio daemon chip w =
     (let (pg, mypio0) = (case pigio of None \<Rightarrow> (daemon, True) | Some p \<Rightarrow> (p, False))
      in if \<not> connected pg then
           Inl (SystemExit 1,
                w\<lparr>events := events w @ [Critical ''pigpio daemon does not appear to be running'']\<rparr>)
         else
           case getitem settings0 ''stepsPerRev'' of
             Inl e \<Rightarrow> Inl (e, w)
           | Inr spr \<Rightarrow>
               let self1 = \<lparr>events = events w, enabled = enabled w, ntrans = ntrans w,
                            mypio = mypio0, settings = settings0, uSC = 256,
                            clockfrequ = clockfrequ0, ustepsPerRev = spr * of_int 256,
                            tconst = clockfrequ0 / 2 ^ 24, maxV = 0,
                            lastwritten = Map.empty, status = 0\<rparr>
               in case getitem settings0 ''maxrpm'' of
                    Inl e \<Rightarrow> Inl (e, w)
                  | Inr rpm \<Rightarrow>
                      (case RPMtoVREG self1 rpm of
                         Inl e \<Rightarrow> Inl (e, w)
                       | Inr v \<Rightarrow>
                           let self2 = self1\<lparr>maxV := py_round v\<rparr>
                           in if length (regsettings (maxV self2)) \<noteq> length regactions
                              then Inl (AssertionError, w)
                              else case readWriteMultiple chip (regsettings (maxV self2)) regactions self2 of
                                     (Inl e, self3) \<Rightarrow> Inl (e, world.truncate self3)
                                   | (Inr currently, self3) \<Rightarrow> Inr self3))"

subsection \<open>updateSettings\<close>

text \<open>
  \<^verbatim>\<open>updateSettings\<close>. The dictionaries that a name of the method body can stand for
  are looked up by name: \<^verbatim>\<open>updates\<close> is the parameter; \<^verbatim>\<open>self\<close>, \<^verbatim>\<open>pendregs\<close> and
  the names of the module are bound to other objects. The list \<^verbatim>\<open>pendregs\<close> is local
  to the method; the model returns it beside the object to make it visible.
\<close>

definition recompute_maxV :: "tmc5130 \<Rightarrow> error + tmc5130" where
  "recompute_maxV self =
     (case getitem (settings self) ''maxrpm'' of
        Inl e \<Rightarrow> Inl e
      | Inr rpm \<Rightarrow>
          (case RPMtoVREG self rpm of
             Inl e \<Rightarrow> Inl e
           | Inr v \<Rightarrow> Inr (self\<lparr>maxV := py_round v\<rparr>)))"

definition vmax_above :: "tmc5130 \<Rightarrow> bool" where
  "vmax_above self =
     (case lastwritten self ''VMAX'' of None \<Rightarrow> False | Some v \<Rightarrow> v > maxV self)"

definition update_maxrpm ::
  "tmc5130 \<Rightarrow> (string \<rightharpoonup> rat) \<Rightarrow> string list \<Rightarrow> (error + unit) \<times> tmc5130 \<times> string list" where
  "update_maxrpm self updates pendregs =
     (case updates ''maxrpm'' of
        None \<Rightarrow> (Inr (), self, pendregs)
      | Some rpm \<Rightarrow>
          let self1 = self\<lparr>settings := (settings self)(''maxrpm'' \<mapsto> rpm)\<rparr>
          in case recompute_maxV self1 of
               Inl e \<Rightarrow> (Inl e, self1, pendregs)
             | Inr self2 \<Rightarrow>
                 if vmax_above self2 \<and> ''VMAX'' \<notin> set pendregs
                 then (Inr (), self2, pendregs @ [''VMAX''])
                 else (Inr (), self2, pendregs))"

definition updateSettings_body ::
  "tmc5130 \<Rightarrow> (string \<rightharpoonup> rat) \<Rightarrow> (error + unit) \<times> tmc5130 \<times> string list" where
  "updateSettings_body self updates =
     (let pendregs = []
      in case lookup_name [(''updates'', updates)] ''upates'' of
           Inl e \<Rightarrow> (Inl e, self, pendregs)
         | Inr d \<Rightarrow>
             if d ''stepsPerRev'' \<noteq> None then
               (case getitem updates ''stepsPerRev'' of
                  Inl e \<Rightarrow> (Inl e, self, pendregs)
                | Inr spr \<Rightarrow>
                    let self1 = self\<lparr>settings := (settings self)(''stepsPerRev'' \<mapsto> spr)\<rparr>;
                        self2 = self1\<lparr>ustepsPerRev := spr * of_int (uSC self1)\<rparr>
                    in case recompute_maxV self2 of
                         Inl e \<Rightarrow> (Inl e, self2, pendregs)
                       | Inr self3 \<Rightarrow>
                           update_maxrpm self3 updates
                             (if vmax_above self3 then pendregs @ [''VMAX''] else pendregs))
             else update_maxrpm self updates pendregs)"

definition updateSettings :: "tmc5130 \<Rightarrow> (string \<rightharpoonup> rat) \<Rightarrow> (error + unit) \<times> tmc5130" where
  "updateSettings self updates =
     (case updateSettings_body self updates of (r, self', pendregs) \<Rightarrow> (r, self'))"

subsection \<open>Polling and motion\<close>

text \<open>
  \<^verbatim>\<open>time.sleep\<close>: a negative duration raises \<^verbatim>\<open>ValueError\<close>.
\<close>

definition sleep :: "rat \<Rightarrow> 'a tmc5130_scheme \<Rightarrow> (error + unit) \<times> 'a tmc5130_scheme" where
  "sleep t s =
     (if t < 0 then (Inl ValueError, s)
      else (Inr (), s\<lparr>events := events s @ [Sleep t]\<rparr>))"

definition print :: "event \<Rightarrow> 'a tmc5130_scheme \<Rightarrow> 'a tmc5130_scheme" where
  "print e s = s\<lparr>events := events s @ [e]\<rparr>"

text \<open>
  The two poll loops have no bound in the source. The model gives each loop a number
  of tests of its condition (\<open>fuel\<close>); a run that is still polling when they are used up
  has the result \<open>None\<close>, and the state reached so far.
\<close>

type_synonym 'a outcome = "(error + 'a) option"

fun waitStop_loop :: "nat \<Rightarrow> chip \<Rightarrow> rat \<Rightarrow> tmc5130 \<Rightarrow> unit outcome \<times> tmc5130" where
  "waitStop_loop 0 chip ticktime s = (None, s)"
| "waitStop_loop (Suc fuel) chip ticktime s =
     (let (v, s1) = readInt chip ''VACTUAL'' s
      in if v \<noteq> 0 then
           (case sleep ticktime s1 of
              (Inl e, s2) \<Rightarrow> (Some (Inl e), s2)
            | (Inr _, s2) \<Rightarrow> waitStop_loop fuel chip ticktime s2)
         else (Some (Inr ()), s1))"

definition waitStop :: "nat \<Rightarrow> chip \<Rightarrow> rat \<Rightarrow> tmc5130 \<Rightarrow> unit outcome \<times> tmc5130" where
  "waitStop fuel chip ticktime s =
     (case sleep ticktime s of
        (Inl e, s1) \<Rightarrow> (Some (Inl e), s1)
      | (Inr _, s1) \<Rightarrow> waitStop_loop fuel chip ticktime s1)"

text \<open>
  The chip definition \<^verbatim>\<open>tmc5130regs.tmc5130\<close> is not part of the source at hand; the
  two entries that \<^verbatim>\<open>wait_reached\<close> uses are parameters: the mask of the status flag
  \<^verbatim>\<open>at position\<close> and the flag table \<^verbatim>\<open>rampstatBits\<close>.
\<close>

record motordef =
  atPosition :: int
  rampstatBits :: "(nat \<times> string) list"

text \<open>
  Modelled from the spec: \<^verbatim>\<open>flagsToText\<close> is a method of the absent bus driver. The
  names of the bits set in a 32-bit value, in ascending bit position; a bit without a
  name in the table is left out.
\<close>

definition flagsToText :: "(nat \<times> string) list \<Rightarrow> int \<Rightarrow> string list" where
  "flagsToText table v =
     List.map_filter (\<lambda>b. if bit v b then map_of table b else None) [0..<32]"

definition reads0 :: "(string \<times> int) list" where
  "reads0 = [(''VACTUAL'', 0), (''XACTUAL'', 0), (''XTARGET'', 0), (''GSTAT'', 0), (''RAMPSTAT'', 0)]"

text \<open>
  The loop of \<^verbatim>\<open>wait_reached\<close>. The source reads the dict \<^verbatim>\<open>reads\<close> that it passed
  to the batch; the engine is taken to fill it with the values it returns. The source
  passes the single tag \<^verbatim>\<open>R\<close> with the five registers, which the engine's check of
  the two lengths, as the spec words it, rejects.
\<close>

fun wait_reached_loop ::
  "nat \<Rightarrow> chip \<Rightarrow> motordef \<Rightarrow> rat \<Rightarrow> (string \<times> int) list \<Rightarrow> tmc5130
     \<Rightarrow> (string \<times> int) list outcome \<times> tmc5130" where
  "wait_reached_loop 0 chip def ticktime reads s = (None, s)"
| "wait_reached_loop (Suc fuel) chip def ticktime reads s =
     (if status s AND atPosition def = 0 then
        (case getitem (map_of reads) ''XACTUAL'' of
           Inl e \<Rightarrow> (Some (Inl e), s)
         | Inr x \<Rightarrow>
        (case truediv (of_int x) (ustepsPerRev s) of
           Inl e \<Rightarrow> (Some (Inl e), s)
         | Inr loc \<Rightarrow>
        (case getitem (map_of reads) ''VACTUAL'' of
           Inl e \<Rightarrow> (Some (Inl e), s)
         | Inr v \<Rightarrow>
        (case getitem (map_of reads) ''RAMPSTAT'' of
           Inl e \<Rightarrow> (Some (Inl e), print (PrintLoc loc v) s)
         | Inr r \<Rightarrow>
        (case sleep ticktime
                (print (PrintRampStatus (flagsToText (rampstatBits def) r))
                   (print (PrintLoc loc v) s)) of
           (Inl e, s1) \<Rightarrow> (Some (Inl e), s1)
         | (Inr _, s1) \<Rightarrow>
        (case readWriteMultiple chip reads ''R'' s1 of
           (Inl e, s2) \<Rightarrow> (Some (Inl e), s2)
         | (Inr reads', s2) \<Rightarrow> wait_reached_loop fuel chip def ticktime reads' s2))))))
      else (Some (Inr reads), s))"

definition wait_reached :: "nat \<Rightarrow> chip \<Rightarrow> motordef \<Rightarrow> rat \<Rightarrow> tmc5130 \<Rightarrow> unit outcome \<times> tmc5130" where
  "wait_reached fuel chip def ticktime s =
     (case sleep ticktime s of
        (Inl e, s1) \<Rightarrow> (Some (Inl e), s1)
      | (Inr _, s1) \<Rightarrow>
     (case readWriteMultiple chip reads0 ''R'' s1 of
        (Inl e, s2) \<Rightarrow> (Some (Inl e), s2)
      | (Inr reads, s2) \<Rightarrow>
     (case wait_reached_loop fuel chip def ticktime reads
             (print (PrintCheckStatus (atPosition def)) s2) of
        (None, s3) \<Rightarrow> (None, s3)
      | (Some (Inl e), s3) \<Rightarrow> (Some (Inl e), s3)
      | (Some (Inr reads'), s3) \<Rightarrow>
     (case getitem (map_of reads') ''RAMPSTAT'' of
        Inl e \<Rightarrow> (Some (Inl e), s3)
      | Inr r \<Rightarrow>
     (case getitem (map_of reads') ''XACTUAL'' of
        Inl e \<Rightarrow> (Some (Inl e), s3)
      | Inr x \<Rightarrow>
     (case truediv (of_int x) (ustepsPerRev s3) of
        Inl e \<Rightarrow> (Some (Inl e), s3)
      | Inr loc \<Rightarrow>
          (Some (Inr ()),
           print (PrintReached loc (status s3) (flagsToText (rampstatBits def) r)) s3)))))))"

text \<open>\<^verbatim>\<open>goto\<close>; the default of \<^verbatim>\<open>ticktime\<close> in \<^verbatim>\<open>wait_reached\<close> is 0.5.\<close>

definition goto ::
  "nat \<Rightarrow> chip \<Rightarrow> motordef \<Rightarrow> rat \<Rightarrow> bool \<Rightarrow> tmc5130 \<Rightarrow> unit outcome \<times> tmc5130" where
  "goto fuel chip def targetpos wait s =
     (let s1 = enableOutput True s;
          s2 = writeInt chip ''XTARGET'' (py_int (ustepsPerRev s1 * targetpos)) s1
      in if wait then
           (case wait_reached fuel chip def (1 / 2) s2 of
              (Some (Inr _), s3) \<Rightarrow> (Some (Inr ()), enableOutput False s3)
            | (r, s3) \<Rightarrow> (r, s3))
         else (Some (Inr ()), enableOutput False s2))"

text \<open>\<^verbatim>\<open>stop\<close>.\<close>

definition stop :: "nat \<Rightarrow> chip \<Rightarrow> tmc5130 \<Rightarrow> unit outcome \<times> tmc5130" where
  "stop fuel chip s =
     (let (x, s1) = readInt chip ''XACTUAL'' s;
          s2 = writeInt chip ''XTARGET'' x s1;
          s3 = writeInt chip ''VMAX'' (maxV s2) s2;
          s4 = writeInt chip ''RAMPMODE'' 0 s3
      in case waitStop fuel chip (1 / 10) s4 of
           (Some (Inr _), s5) \<Rightarrow> (Some (Inr ()), enableOutput False s5)
         | (r, s5) \<Rightarrow> (r, s5))"

section \<open>Concrete inputs\<close>

text \<open>
  A scripted chip answers the \<open>k\<close>-th register operation with the \<open>k\<close>-th entry of
  the script and with zeros after its end.
\<close>

definition script :: "(int \<times> int) list \<Rightarrow> chip" where
  "script xs k = (if k < length xs then xs ! k else (0, 0))"

text \<open>A second configuration: a motor of 200 steps per revolution, at most 100 rpm.\<close>

definition settings200 :: "string \<rightharpoonup> rat" where
  "settings200 = [''stepsPerRev'' \<mapsto> 200, ''maxrpm'' \<mapsto> 100]"

definition world0 :: world where
  "world0 = \<lparr>events = [], enabled = False, ntrans = 0\<rparr>"

text \<open>
  The object that the constructor builds from its default arguments, with a connected
  daemon and a chip that answers zeros.
\<close>

definition session0 :: tmc5130 where
  "session0 =
     \<lparr>events = [ReadWriteMultiple (regsettings 179180) regactions],
      enabled = False, ntrans = 15, mypio = True, settings = motor28BYJ_48, uSC = 256,
      clockfrequ = 15000000, ustepsPerRev = 131072 / 3, tconst = 234375 / 262144,
      maxV = 179180, lastwritten = map_of (regsettings 179180), status = 0\<rparr>"

section \<open>Observations on the record of events\<close>

text \<open>
  The events of \<open>n\<close> unsuccessful polls of VACTUAL, the first of them answered by the
  \<open>k\<close>-th register operation: each poll reads a value and then sleeps.
\<close>

definition polls :: "chip \<Rightarrow> rat \<Rightarrow> nat \<Rightarrow> nat \<Rightarrow> event list" where
  "polls chip t k n =
     concat (map (\<lambda>i. [ReadInt ''VACTUAL'' (snd (chip (k + i))), Sleep t]) [0..<n])"

text \<open>The values that an event writes to the register XTARGET.\<close>

fun xtarget_written :: "event \<Rightarrow> int list" where
  "xtarget_written (WriteInt name v) = (if name = ''XTARGET'' then [v] else [])"
| "xtarget_written (ReadWriteMultiple ops tags) =
     map (snd \<circ> fst)
       (filter (\<lambda>(op, tag). fst op = ''XTARGET'' \<and> tag \<noteq> CHR ''R'') (zip ops tags))"
| "xtarget_written _ = []"

definition xtarget_writes :: "event list \<Rightarrow> int list" where
  "xtarget_writes es = concat (map xtarget_written es)"

text \<open>An example of a chip definition, and a chip whose motor is still running.\<close>

definition motordef0 :: motordef where
  "motordef0 = \<lparr>atPosition = 0x20, rampstatBits = [(7, ''event_pos_reached''), (9, ''position_reached'')]\<rparr>"

definition chip1 :: chip where
  "chip1 = script (replicate 15 (0, 0) @ [(1, 4242), (1, 0), (1, 0), (1, 0), (1, 5), (1, 3), (0, 0)])"

text \<open>The object after one poll of VACTUAL that did not read zero, and the sleep that follows it.\<close>

definition poll_again :: "chip \<Rightarrow> rat \<Rightarrow> tmc5130 \<Rightarrow> tmc5130" where
  "poll_again chip t s =
     s\<lparr>ntrans := Suc (ntrans s), status := fst (chip (ntrans s)),
       events := events s @ [ReadInt ''VACTUAL'' (snd (chip (ntrans s))), Sleep t],
       lastwritten := (lastwritten s)(''VACTUAL'' \<mapsto> snd (chip (ntrans s)))\<rparr>"

section \<open>Arithmetic of the Python conversions\<close>

lemma py_round_near:
  assumes "of_int n - 1 / 2 < x" and "x < of_int n + 1 / 2"
  shows "py_round x = n"
proof (cases "of_int n \<le> x")
  case True
  with assms have "\<lfloor>x\<rfloor> = n" by (intro floor_unique) auto
  with assms show ?thesis by (simp add: py_round_def Let_def)
next
  case False
  with assms have f: "\<lfloor>x\<rfloor> = n - 1" by (intro floor_unique) auto
  from False assms have "1 / 2 < x - of_int (n - 1)" by simp
  with f show ?thesis by (simp add: py_round_def Let_def)
qed

lemma py_int_nonneg:
  assumes "of_int n \<le> x" and "x < of_int n + 1" and "0 \<le> n"
  shows "py_int x = n"
proof -
  from assms have "0 \<le> x" by (metis of_int_0_le_iff order_trans)
  moreover from assms have "\<lfloor>x\<rfloor> = n" by (intro floor_unique)
  ultimately show ?thesis by (simp add: py_int_def)
qed

section \<open>The batch engine keeps the object's own fields\<close>

lemma batch_ops_fields:
  "batch_ops chip ops tags s = (rs, s') \<Longrightarrow>
     events s' = events s \<and> enabled s' = enabled s \<and> maxV s' = maxV s \<and>
     ustepsPerRev s' = ustepsPerRev s \<and> tconst s' = tconst s \<and>
     settings s' = settings s \<and>
     ntrans s' = ntrans s + min (length ops) (length tags)"
proof (induction chip ops tags s arbitrary: rs s' rule: batch_ops.induct)
  case (1 chip op ops tag tags s)
  obtain r s1 where b: "batch_op chip op tag s = (r, s1)" by (cases "batch_op chip op tag s")
  obtain rs2 s2 where c: "batch_ops chip ops tags s1 = (rs2, s2)"
    by (cases "batch_ops chip ops tags s1")
  from b have s1: "events s1 = events s" "enabled s1 = enabled s" "maxV s1 = maxV s"
    "ustepsPerRev s1 = ustepsPerRev s" "tconst s1 = tconst s" "settings s1 = settings s"
    "ntrans s1 = Suc (ntrans s)"
    by (auto simp: batch_op_def answer_def Let_def)
  from "1.prems" b c have "s' = s2" by simp
  with "1.IH"[OF b[symmetric] refl c] s1 show ?case by simp
qed simp_all

lemma readWriteMultiple_fields:
  assumes "readWriteMultiple chip ops tags s = (Inr rs, s')"
  shows "events s' = events s @ [ReadWriteMultiple ops tags]"
    and "enabled s' = enabled s" and "maxV s' = maxV s"
    and "ustepsPerRev s' = ustepsPerRev s" and "tconst s' = tconst s"
    and "settings s' = settings s"
    and "ntrans s' = ntrans s + length ops"
proof -
  let ?s0 = "s\<lparr>events := events s @ [ReadWriteMultiple ops tags]\<rparr>"
  from assms have len: "length ops = length tags"
    by (auto simp: readWriteMultiple_def split: if_splits)
  obtain rs0 s1 where b: "batch_ops chip ops tags ?s0 = (rs0, s1)"
    by (cases "batch_ops chip ops tags ?s0")
  with assms len have "s' = s1" by (simp add: readWriteMultiple_def Let_def)
  with batch_ops_fields[OF b] len
  show "events s' = events s @ [ReadWriteMultiple ops tags]"
    and "enabled s' = enabled s" and "maxV s' = maxV s"
    and "ustepsPerRev s' = ustepsPerRev s" and "tconst s' = tconst s"
    and "settings s' = settings s"
    and "ntrans s' = ntrans s + length ops"
    by simp_all
qed

section \<open>Construction\<close>

lemma init_Inr:
  assumes "init cf st pigio daemon chip w = Inr self"
  shows "\<exists>spr rpm. st ''stepsPerRev'' = Some spr \<and> st ''maxrpm'' = Some rpm \<and> cf \<noteq> 0 \<and>
           ustepsPerRev self = spr * 256 \<and> tconst self = cf / 2 ^ 24 \<and>
           maxV self = py_round (rpm * (spr * 256) / 60 / (cf / 2 ^ 24)) \<and>
           events self = events w @ [ReadWriteMultiple (regsettings (maxV self)) regactions] \<and>
           ntrans self = ntrans w + 15 \<and> enabled self = enabled w"
proof -
  let ?pg = "case pigio of None \<Rightarrow> daemon | Some p \<Rightarrow> p"
  from assms obtain spr where spr: "st ''stepsPerRev'' = Some spr"
    by (cases "st ''stepsPerRev''")
       (auto simp: init_def getitem_def Let_def split: option.splits if_splits)
  from assms spr obtain rpm where rpm: "st ''maxrpm'' = Some rpm"
    by (cases "st ''maxrpm''")
       (auto simp: init_def getitem_def Let_def split: option.splits if_splits)
  from assms spr rpm have cf: "cf \<noteq> 0"
    by (auto simp: init_def getitem_def RPMtoVREG_def truediv_def Let_def
             split: option.splits if_splits)
  define v where "v = py_round (rpm * (spr * 256) / 60 / (cf / 2 ^ 24))"
  define self2 :: tmc5130 where "self2 =
     \<lparr>events = events w, enabled = enabled w, ntrans = ntrans w,
      mypio = (case pigio of None \<Rightarrow> True | Some p \<Rightarrow> False), settings = st, uSC = 256,
      clockfrequ = cf, ustepsPerRev = spr * 256, tconst = cf / 2 ^ 24, maxV = v,
      lastwritten = Map.empty, status = 0\<rparr>"
  obtain r s3 where rw: "readWriteMultiple chip (regsettings v) regactions self2 = (r, s3)"
    by (cases "readWriteMultiple chip (regsettings v) regactions self2")
  from assms spr rpm cf rw have "r = Inr (projr r) \<and> self = s3"
    by (auto simp: init_def getitem_def RPMtoVREG_def truediv_def Let_def v_def self2_def
             split: option.splits if_splits sum.splits)
  then have r: "readWriteMultiple chip (regsettings v) regactions self2 = (Inr (projr r), self)"
    using rw by simp
  from readWriteMultiple_fields[OF r]
  have mv: "maxV self = v" and "ustepsPerRev self = spr * 256" "tconst self = cf / 2 ^ 24"
    "events self = events w @ [ReadWriteMultiple (regsettings v) regactions]"
    "ntrans self = ntrans w + 15" "enabled self = enabled w"
    by (simp_all add: self2_def regsettings_def)
  then have "ustepsPerRev self = spr * 256" "tconst self = cf / 2 ^ 24"
    "events self = events w @ [ReadWriteMultiple (regsettings (maxV self)) regactions]"
    "ntrans self = ntrans w + 15" "enabled self = enabled w"
    by simp_all
  with spr rpm cf mv[unfolded v_def] show ?thesis
    by blast
qed

lemma init_default:
  "init 15000000 motor28BYJ_48 None \<lparr>connected = True\<rparr> (script []) world0 = Inr session0"
  by (simp add: init_def motor28BYJ_48_def getitem_def RPMtoVREG_def truediv_def
        py_round_near[of 179180] regsettings_def regactions_def readWriteMultiple_def
        batch_op_def answer_def world0_def script_def session0_def fun_eq_iff)

lemma init_succeeds:
  assumes "connected (case pigio of None \<Rightarrow> daemon | Some p \<Rightarrow> p)"
    and "st ''stepsPerRev'' = Some spr" and "st ''maxrpm'' = Some rpm" and "cf \<noteq> 0"
  shows "\<exists>self. init cf st pigio daemon chip w = Inr self"
  using assms
  by (simp add: init_def getitem_def RPMtoVREG_def truediv_def Let_def regsettings_def
        regactions_def readWriteMultiple_def split_def split: option.splits)

lemma init_Inr_connected:
  assumes "init cf st pigio daemon chip w = Inr self"
  shows "connected (case pigio of None \<Rightarrow> daemon | Some p \<Rightarrow> p)"
  using assms by (auto simp: init_def split: option.splits if_splits)

text \<open>
  Claim C4. The constructor yields an object exactly when the daemon handle in use is
  connected, both settings are present and the clock frequency is not zero. Every
  construction that yields an object hands the bus driver exactly one batched register
  operation: the fifteen registers GSTAT, GCONF, CHOPCONF, IHOLD_IRUN, TPOWERDOWN,
  TPWMTHRS, VSTART, A1, V1, AMAX, VMAX, DMAX, D1, VSTOP and RAMPMODE in this order, the
  VMAX entry being the object's computed \<open>maxV\<close>, with the access tags in lockstep: R
  for GSTAT, U for GCONF and W for each of the other thirteen.
\<close>

theorem init_register_sequence:
  "((\<exists>self. init cf st pigio daemon chip w = Inr self) \<longleftrightarrow>
      connected (case pigio of None \<Rightarrow> daemon | Some p \<Rightarrow> p) \<and>
      st ''stepsPerRev'' \<noteq> None \<and> st ''maxrpm'' \<noteq> None \<and> cf \<noteq> 0) \<and>
   (\<forall>self. init cf st pigio daemon chip w = Inr self \<longrightarrow>
      events self = events w @
        [ReadWriteMultiple
           [(''GSTAT'', 0), (''GCONF'', 4), (''CHOPCONF'', 0x000100C3),
            (''IHOLD_IRUN'', 0x00080F0A), (''TPOWERDOWN'', 0x0000000A),
            (''TPWMTHRS'', 0x000001F4), (''VSTART'', 1), (''A1'', 1500),
            (''V1'', 100000), (''AMAX'', 1000), (''VMAX'', maxV self),
            (''DMAX'', 1100), (''D1'', 600), (''VSTOP'', 10), (''RAMPMODE'', 0)]
           ''RUWWWWWWWWWWWWW''] \<and>
      zip (map fst (regsettings (maxV self))) regactions =
        [(''GSTAT'', CHR ''R''), (''GCONF'', CHR ''U''), (''CHOPCONF'', CHR ''W''),
         (''IHOLD_IRUN'', CHR ''W''), (''TPOWERDOWN'', CHR ''W''),
         (''TPWMTHRS'', CHR ''W''), (''VSTART'', CHR ''W''), (''A1'', CHR ''W''),
         (''V1'', CHR ''W''), (''AMAX'', CHR ''W''), (''VMAX'', CHR ''W''),
         (''DMAX'', CHR ''W''), (''D1'', CHR ''W''), (''VSTOP'', CHR ''W''),
         (''RAMPMODE'', CHR ''W'')] \<and>
      ntrans self = ntrans w + 15 \<and>
      (\<exists>spr rpm. st ''stepsPerRev'' = Some spr \<and> st ''maxrpm'' = Some rpm \<and>
         maxV self = py_round (rpm * (spr * 256) / 60 / (cf / 2 ^ 24))))"
proof (intro conjI iffI allI impI)
  assume "\<exists>self. init cf st pigio daemon chip w = Inr self"
  then obtain self where i: "init cf st pigio daemon chip w = Inr self" ..
  from init_Inr_connected[OF i]
  show "connected (case pigio of None \<Rightarrow> daemon | Some p \<Rightarrow> p)" .
  from init_Inr[OF i]
  show "st ''stepsPerRev'' \<noteq> None" and "st ''maxrpm'' \<noteq> None" and "cf \<noteq> 0"
    by auto
next
  assume "connected (case pigio of None \<Rightarrow> daemon | Some p \<Rightarrow> p) \<and>
      st ''stepsPerRev'' \<noteq> None \<and> st ''maxrpm'' \<noteq> None \<and> cf \<noteq> 0"
  then obtain spr rpm where "connected (case pigio of None \<Rightarrow> daemon | Some p \<Rightarrow> p)"
    "st ''stepsPerRev'' = Some spr" "st ''maxrpm'' = Some rpm" "cf \<noteq> 0"
    by auto
  then show "\<exists>self. init cf st pigio daemon chip w = Inr self"
    by (rule init_succeeds)
next
  fix self
  assume i: "init cf st pigio daemon chip w = Inr self"
  from init_Inr[OF i] obtain spr rpm where f:
    "st ''stepsPerRev'' = Some spr" "st ''maxrpm'' = Some rpm"
    "maxV self = py_round (rpm * (spr * 256) / 60 / (cf / 2 ^ 24))"
    "events self = events w @ [ReadWriteMultiple (regsettings (maxV self)) regactions]"
    "ntrans self = ntrans w + 15"
    by blast
  from f(4) show "events self = events w @
        [ReadWriteMultiple
           [(''GSTAT'', 0), (''GCONF'', 4), (''CHOPCONF'', 0x000100C3),
            (''IHOLD_IRUN'', 0x00080F0A), (''TPOWERDOWN'', 0x0000000A),
            (''TPWMTHRS'', 0x000001F4), (''VSTART'', 1), (''A1'', 1500),
            (''V1'', 100000), (''AMAX'', 1000), (''VMAX'', maxV self),
            (''DMAX'', 1100), (''D1'', 600), (''VSTOP'', 10), (''RAMPMODE'', 0)]
           ''RUWWWWWWWWWWWWW'']"
    by (simp add: regsettings_def regactions_def)
  show "zip (map fst (regsettings (maxV self))) regactions =
        [(''GSTAT'', CHR ''R''), (''GCONF'', CHR ''U''), (''CHOPCONF'', CHR ''W''),
         (''IHOLD_IRUN'', CHR ''W''), (''TPOWERDOWN'', CHR ''W''),
         (''TPWMTHRS'', CHR ''W''), (''VSTART'', CHR ''W''), (''A1'', CHR ''W''),
         (''V1'', CHR ''W''), (''AMAX'', CHR ''W''), (''VMAX'', CHR ''W''),
         (''DMAX'', CHR ''W''), (''D1'', CHR ''W''), (''VSTOP'', CHR ''W''),
         (''RAMPMODE'', CHR ''W'')]"
    by (simp add: regsettings_def regactions_def)
  from f(5) show "ntrans self = ntrans w + 15" .
  from f(1-3) show "\<exists>spr rpm. st ''stepsPerRev'' = Some spr \<and> st ''maxrpm'' = Some rpm \<and>
         maxV self = py_round (rpm * (spr * 256) / 60 / (cf / 2 ^ 24))"
    by blast
qed

theorem init_register_sequence_witness:
  "connected (case None of None \<Rightarrow> \<lparr>connected = True\<rparr> | Some p \<Rightarrow> p) \<and>
   settings200 ''stepsPerRev'' \<noteq> None \<and> settings200 ''maxrpm'' \<noteq> None \<and>
   (15000000 :: rat) \<noteq> 0 \<and>
   (\<exists>self. init 15000000 settings200 None \<lparr>connected = True\<rparr> (script []) world0 = Inr self \<and>
      maxV self = 95444 \<and>
      events self =
        [ReadWriteMultiple
           [(''GSTAT'', 0), (''GCONF'', 4), (''CHOPCONF'', 0x000100C3),
            (''IHOLD_IRUN'', 0x00080F0A), (''TPOWERDOWN'', 0x0000000A),
            (''TPWMTHRS'', 0x000001F4), (''VSTART'', 1), (''A1'', 1500),
            (''V1'', 100000), (''AMAX'', 1000), (''VMAX'', 95444),
            (''DMAX'', 1100), (''D1'', 600), (''VSTOP'', 10), (''RAMPMODE'', 0)]
           ''RUWWWWWWWWWWWWW''] \<and>
      ntrans self = 15)"
proof -
  note th = init_register_sequence[of 15000000 settings200 None "\<lparr>connected = True\<rparr>"
      "script []" world0]
  have c: "connected (case None of None \<Rightarrow> \<lparr>connected = True\<rparr> | Some p \<Rightarrow> p)"
    "settings200 ''stepsPerRev'' \<noteq> None" "settings200 ''maxrpm'' \<noteq> None"
    "(15000000 :: rat) \<noteq> 0"
    by (simp_all add: settings200_def)
  with th obtain self where
    i: "init 15000000 settings200 None \<lparr>connected = True\<rparr> (script []) world0 = Inr self"
    by blast
  from th i obtain spr rpm where s: "settings200 ''stepsPerRev'' = Some spr"
    "settings200 ''maxrpm'' = Some rpm"
    "maxV self = py_round (rpm * (spr * 256) / 60 / (15000000 / 2 ^ 24))"
    by blast
  from s(1,2) have "spr = 200" "rpm = 100"
    by (simp_all add: settings200_def)
  with s(3) have "maxV self = py_round (100 * (200 * 256) / 60 / (15000000 / 2 ^ 24))"
    by simp
  also have "\<dots> = 95444"
    by (rule py_round_near) simp_all
  finally have mv: "maxV self = 95444" .
  from th i have "events self = events world0 @
        [ReadWriteMultiple
           [(''GSTAT'', 0), (''GCONF'', 4), (''CHOPCONF'', 0x000100C3),
            (''IHOLD_IRUN'', 0x00080F0A), (''TPOWERDOWN'', 0x0000000A),
            (''TPWMTHRS'', 0x000001F4), (''VSTART'', 1), (''A1'', 1500),
            (''V1'', 100000), (''AMAX'', 1000), (''VMAX'', maxV self),
            (''DMAX'', 1100), (''D1'', 600), (''VSTOP'', 10), (''RAMPMODE'', 0)]
           ''RUWWWWWWWWWWWWW'']" and "ntrans self = ntrans world0 + 15"
    by blast+
  with mv i c show ?thesis
    by (simp add: world0_def)
qed

text \<open>
  Claim C5, as the code has it. On every constructed object \<^verbatim>\<open>RPMtoVREG(rpm)\<close>
  returns rpm \<times> (stepsPerRev \<times> 256) / 60 divided by clockfrequ / 2^24, not rounded;
  the constructor rounds this value for the configured maxrpm when it stores
  \<open>maxV\<close>.
\<close>

theorem RPMtoVREG_unrounded:
  assumes "init cf st pigio daemon chip w = Inr self"
  shows "\<exists>spr mrpm. st ''stepsPerRev'' = Some spr \<and> st ''maxrpm'' = Some mrpm \<and>
           RPMtoVREG self rpm = Inr (rpm * (spr * 256) / 60 / (cf / 2 ^ 24)) \<and>
           maxV self = py_round (mrpm * (spr * 256) / 60 / (cf / 2 ^ 24))"
proof -
  from init_Inr[OF assms] obtain spr mrpm where
    "st ''stepsPerRev'' = Some spr" "st ''maxrpm'' = Some mrpm" "cf \<noteq> 0"
    "ustepsPerRev self = spr * 256" "tconst self = cf / 2 ^ 24"
    "maxV self = py_round (mrpm * (spr * 256) / 60 / (cf / 2 ^ 24))"
    by blast
  moreover from this have "tconst self \<noteq> 0"
    by simp
  then have "RPMtoVREG self rpm = Inr (rpm * ustepsPerRev self / 60 / tconst self)"
    by (simp add: RPMtoVREG_def truediv_def)
  ultimately show ?thesis by metis
qed

theorem RPMtoVREG_unrounded_witness:
  "init 15000000 motor28BYJ_48 None \<lparr>connected = True\<rparr> (script []) world0 = Inr session0 \<and>
   RPMtoVREG session0 220 = Inr (377957122048 / 2109375) \<and> maxV session0 = 179180"
proof -
  from RPMtoVREG_unrounded[OF init_default, of 220] obtain spr where
    spr: "motor28BYJ_48 ''stepsPerRev'' = Some spr" and
    v: "RPMtoVREG session0 220 = Inr (220 * (spr * 256) / 60 / (15000000 / 2 ^ 24))"
    by blast
  from spr have "spr = 2048 / 12"
    by (simp add: motor28BYJ_48_def)
  with v have "RPMtoVREG session0 220 = Inr (377957122048 / 2109375)"
    by simp
  then show ?thesis
    by (simp add: init_default) (simp add: session0_def)
qed

text \<open>
  Counterexample to claim C5 as stated: on the default object \<^verbatim>\<open>RPMtoVREG(1)\<close> is
  8589934592 / 10546875, which lies strictly between 814 and 815, so the value
  returned is not the quotient rounded to the nearest integer.
\<close>

theorem RPMtoVREG_rounded_counterexample:
  "init 15000000 motor28BYJ_48 None \<lparr>connected = True\<rparr> (script []) world0 = Inr session0 \<and>
   RPMtoVREG session0 1 = Inr (8589934592 / 10546875) \<and>
   (814 :: rat) < 8589934592 / 10546875 \<and> (8589934592 / 10546875 :: rat) < 815 \<and>
   RPMtoVREG session0 1 \<noteq>
     Inr (of_int (py_round (1 * ustepsPerRev session0 / 60 / tconst session0)))"
proof -
  have "py_round (1 * ustepsPerRev session0 / 60 / tconst session0) = 814"
    by (rule py_round_near) (simp_all add: session0_def)
  then show ?thesis
    by (simp add: init_default) (simp add: RPMtoVREG_def truediv_def session0_def)
qed

text \<open>
  Claim C7. For an object with positive \<open>ustepsPerRev\<close> and \<open>tconst\<close>,
  \<^verbatim>\<open>RPMtoVREG\<close> returns a value for every rpm and is monotonically non-decreasing in
  rpm.
\<close>

theorem RPMtoVREG_mono:
  assumes "0 < ustepsPerRev self" and "0 < tconst self" and "rpm1 \<le> rpm2"
  shows "\<exists>v1 v2. RPMtoVREG self rpm1 = Inr v1 \<and> RPMtoVREG self rpm2 = Inr v2 \<and> v1 \<le> v2"
proof -
  from assms have "rpm1 * ustepsPerRev self \<le> rpm2 * ustepsPerRev self"
    by (simp add: mult_right_mono)
  then have "rpm1 * ustepsPerRev self / 60 \<le> rpm2 * ustepsPerRev self / 60"
    by (simp add: divide_right_mono)
  with assms(2)
  have "rpm1 * ustepsPerRev self / 60 / tconst self \<le> rpm2 * ustepsPerRev self / 60 / tconst self"
    by (simp add: divide_right_mono)
  with assms(2) show ?thesis
    by (simp add: RPMtoVREG_def truediv_def)
qed

theorem RPMtoVREG_mono_witness:
  "0 < ustepsPerRev session0 \<and> 0 < tconst session0 \<and> (100 :: rat) \<le> 220 \<and>
   RPMtoVREG session0 100 = Inr (171798691840 / 2109375) \<and>
   RPMtoVREG session0 220 = Inr (377957122048 / 2109375) \<and>
   (171798691840 / 2109375 :: rat) \<le> 377957122048 / 2109375"
  using RPMtoVREG_mono[of session0 100 220]
  by (simp add: RPMtoVREG_def truediv_def session0_def)

text \<open>
  Claim C9. When the daemon handle in use reports not connected, the constructor
  raises \<^verbatim>\<open>SystemExit(1)\<close> and yields no object; the world has gained the critical
  log record and nothing else: no register operation was issued.
\<close>

theorem init_not_connected:
  assumes "\<not> connected (case pigio of None \<Rightarrow> daemon | Some p \<Rightarrow> p)"
  shows "init cf st pigio daemon chip w =
           Inl (SystemExit 1,
                w\<lparr>events := events w @ [Critical ''pigpio daemon does not appear to be running'']\<rparr>)"
  using assms by (simp add: init_def split: option.splits)

theorem init_not_connected_witness:
  "\<not> connected (case None of None \<Rightarrow> \<lparr>connected = False\<rparr> | Some p \<Rightarrow> p) \<and>
   init 15000000 motor28BYJ_48 None \<lparr>connected = False\<rparr> (script []) world0 =
     Inl (SystemExit 1,
          \<lparr>events = [Critical ''pigpio daemon does not appear to be running''],
           enabled = False, ntrans = 0\<rparr>)"
  using init_not_connected[where pigio = None and daemon = "\<lparr>connected = False\<rparr>"
      and cf = 15000000 and st = motor28BYJ_48 and chip = "script []" and w = world0]
  by (simp add: world0_def)

section \<open>updateSettings\<close>

lemma updateSettings_body_NameError:
  "updateSettings_body self updates = (Inl (NameError ''upates''), self, [])"
  by (simp add: updateSettings_body_def lookup_name_def)

text \<open>
  Claim C10. For every argument \<^verbatim>\<open>updateSettings\<close> raises \<^verbatim>\<open>NameError\<close> for the
  name \<^verbatim>\<open>upates\<close> and leaves the object as it was: settings, \<open>ustepsPerRev\<close>,
  \<open>maxV\<close>, the cache of last-written registers and the record of bus activity are
  unchanged.
\<close>

theorem updateSettings_raises:
  "updateSettings self updates = (Inl (NameError ''upates''), self)"
  by (simp add: updateSettings_def updateSettings_body_NameError)

text \<open>
  Claim C1, evaluated on the code. The default object has maxrpm 220, \<open>maxV\<close> 179180 and
  VMAX last written as 179180. \<^verbatim>\<open>updateSettings({'maxrpm': 100})\<close> raises
  \<^verbatim>\<open>NameError\<close>; \<open>maxV\<close> stays 179180, where the value for 100 rpm is 81445, and no
  register is queued.
\<close>

theorem updateSettings_maxrpm_100:
  "init 15000000 motor28BYJ_48 None \<lparr>connected = True\<rparr> (script []) world0 = Inr session0 \<and>
   lastwritten session0 ''VMAX'' = Some 179180 \<and>
   updateSettings_body session0 [''maxrpm'' \<mapsto> 100] = (Inl (NameError ''upates''), session0, []) \<and>
   updateSettings session0 [''maxrpm'' \<mapsto> 100] = (Inl (NameError ''upates''), session0) \<and>
   maxV session0 = 179180 \<and>
   py_round (100 * ustepsPerRev session0 / 60 / tconst session0) = 81445"
proof -
  have "py_round (100 * ustepsPerRev session0 / 60 / tconst session0) = 81445"
    by (rule py_round_near) (simp_all add: session0_def)
  moreover have "lastwritten session0 ''VMAX'' = Some 179180" "maxV session0 = 179180"
    by (simp_all add: session0_def regsettings_def)
  ultimately show ?thesis
    by (simp add: init_default updateSettings_def updateSettings_body_NameError)
qed

section \<open>Polling\<close>

lemma polls_0: "polls chip t k 0 = []"
  by (simp add: polls_def)

lemma polls_Suc:
  "polls chip t k (Suc n) = ReadInt ''VACTUAL'' (snd (chip k)) # Sleep t # polls chip t (Suc k) n"
proof -
  have "[0..<Suc n] = 0 # map Suc [0..<n]"
    by (simp add: upt_conv_Cons map_Suc_upt del: upt_Suc)
  then show ?thesis
    by (simp add: polls_def comp_def del: upt_Suc)
qed

lemma readInt_eq:
  "readInt chip name s =
     (snd (chip (ntrans s)),
      s\<lparr>ntrans := Suc (ntrans s), status := fst (chip (ntrans s)),
        events := events s @ [ReadInt name (snd (chip (ntrans s)))],
        lastwritten := (lastwritten s)(name \<mapsto> snd (chip (ntrans s)))\<rparr>)"
  by (simp add: readInt_def answer_def)

lemma writeInt_eq:
  "writeInt chip name v s =
     s\<lparr>ntrans := Suc (ntrans s), status := fst (chip (ntrans s)),
       events := events s @ [WriteInt name v],
       lastwritten := (lastwritten s)(name \<mapsto> v)\<rparr>"
  by (simp add: writeInt_def answer_def)

lemma waitStop_loop_step:
  assumes "snd (chip (ntrans s)) \<noteq> 0" and "0 \<le> t"
  shows "waitStop_loop (Suc f) chip t s = waitStop_loop f chip t (poll_again chip t s)"
  using assms by (cases s) (simp add: readInt_eq sleep_def poll_again_def)

lemma waitStop_loop_zero:
  assumes "0 \<le> t" and "\<forall>i<n. snd (chip (ntrans s + i)) \<noteq> 0"
    and "snd (chip (ntrans s + n)) = 0" and "n < fuel"
  shows "waitStop_loop fuel chip t s =
           (Some (Inr ()),
            s\<lparr>ntrans := ntrans s + Suc n, status := fst (chip (ntrans s + n)),
              events := events s @ polls chip t (ntrans s) n @ [ReadInt ''VACTUAL'' 0],
              lastwritten := (lastwritten s)(''VACTUAL'' \<mapsto> 0)\<rparr>)"
  using assms
proof (induction n arbitrary: fuel s)
  case 0
  then obtain f where "fuel = Suc f" by (cases fuel) auto
  with 0 show ?case
    by (cases s) (simp add: readInt_eq polls_0 fun_eq_iff)
next
  case (Suc n)
  then obtain f where f: "fuel = Suc f" by (cases fuel) auto
  let ?s2 = "poll_again chip t s"
  have nt: "ntrans ?s2 = Suc (ntrans s)" by (simp add: poll_again_def)
  from Suc.prems(2) have "snd (chip (ntrans s + 0)) \<noteq> 0" by blast
  then have nz: "snd (chip (ntrans s)) \<noteq> 0" by simp
  have step: "waitStop_loop fuel chip t s = waitStop_loop f chip t ?s2"
    unfolding f using nz \<open>0 \<le> t\<close> by (rule waitStop_loop_step)
  have a: "\<forall>i<n. snd (chip (ntrans ?s2 + i)) \<noteq> 0"
  proof (intro allI impI)
    fix i assume "i < n"
    then have "Suc i < Suc n" by simp
    with Suc.prems(2) have "snd (chip (ntrans s + Suc i)) \<noteq> 0" by blast
    then show "snd (chip (ntrans ?s2 + i)) \<noteq> 0" by (simp add: nt)
  qed
  have b: "snd (chip (ntrans ?s2 + n)) = 0"
    using Suc.prems(3) by (simp add: nt)
  have c: "n < f" using Suc.prems(4) f by simp
  note Suc.IH[OF \<open>0 \<le> t\<close> a b c]
  then have "waitStop_loop fuel chip t s =
           (Some (Inr ()),
            ?s2\<lparr>ntrans := ntrans ?s2 + Suc n, status := fst (chip (ntrans ?s2 + n)),
              events := events ?s2 @ polls chip t (ntrans ?s2) n @ [ReadInt ''VACTUAL'' 0],
              lastwritten := (lastwritten ?s2)(''VACTUAL'' \<mapsto> 0)\<rparr>)"
    by (simp only: step)
  also have "?s2\<lparr>ntrans := ntrans ?s2 + Suc n, status := fst (chip (ntrans ?s2 + n)),
              events := events ?s2 @ polls chip t (ntrans ?s2) n @ [ReadInt ''VACTUAL'' 0],
              lastwritten := (lastwritten ?s2)(''VACTUAL'' \<mapsto> 0)\<rparr> =
            s\<lparr>ntrans := ntrans s + Suc (Suc n), status := fst (chip (ntrans s + Suc n)),
              events := events s @ polls chip t (ntrans s) (Suc n) @ [ReadInt ''VACTUAL'' 0],
              lastwritten := (lastwritten s)(''VACTUAL'' \<mapsto> 0)\<rparr>"
    by (cases s) (simp add: poll_again_def polls_Suc)
  finally show ?case .
qed

lemma waitStop_loop_running:
  assumes "0 \<le> t" and "\<forall>i<fuel. snd (chip (ntrans s + i)) \<noteq> 0"
  shows "fst (waitStop_loop fuel chip t s) = None \<and>
         events (snd (waitStop_loop fuel chip t s)) = events s @ polls chip t (ntrans s) fuel \<and>
         enabled (snd (waitStop_loop fuel chip t s)) = enabled s"
  using assms
proof (induction fuel arbitrary: s)
  case 0
  then show ?case by (simp add: polls_0)
next
  case (Suc f)
  let ?s2 = "poll_again chip t s"
  have nt: "ntrans ?s2 = Suc (ntrans s)" by (simp add: poll_again_def)
  from Suc.prems(2) have "snd (chip (ntrans s + 0)) \<noteq> 0" by blast
  then have nz: "snd (chip (ntrans s)) \<noteq> 0" by simp
  have step: "waitStop_loop (Suc f) chip t s = waitStop_loop f chip t ?s2"
    using nz \<open>0 \<le> t\<close> by (rule waitStop_loop_step)
  have a: "\<forall>i<f. snd (chip (ntrans ?s2 + i)) \<noteq> 0"
  proof (intro allI impI)
    fix i assume "i < f"
    then have "Suc i < Suc f" by simp
    with Suc.prems(2) have "snd (chip (ntrans s + Suc i)) \<noteq> 0" by blast
    then show "snd (chip (ntrans ?s2 + i)) \<noteq> 0" by (simp add: nt)
  qed
  have ev: "events ?s2 = events s @ [ReadInt ''VACTUAL'' (snd (chip (ntrans s))), Sleep t]"
    and en: "enabled ?s2 = enabled s"
    by (simp_all add: poll_again_def)
  from Suc.IH[OF \<open>0 \<le> t\<close> a] show ?case
    unfolding step by (simp add: nt ev en polls_Suc)
qed

lemma waitStop_zero:
  assumes "0 \<le> t" and "\<forall>i<n. snd (chip (ntrans s + i)) \<noteq> 0"
    and "snd (chip (ntrans s + n)) = 0" and "n < fuel"
  shows "waitStop fuel chip t s =
           (Some (Inr ()),
            s\<lparr>ntrans := ntrans s + Suc n, status := fst (chip (ntrans s + n)),
              events := events s @ Sleep t # polls chip t (ntrans s) n @ [ReadInt ''VACTUAL'' 0],
              lastwritten := (lastwritten s)(''VACTUAL'' \<mapsto> 0)\<rparr>)"
proof -
  let ?s1 = "s\<lparr>events := events s @ [Sleep t]\<rparr>"
  have "waitStop fuel chip t s = waitStop_loop fuel chip t ?s1"
    using \<open>0 \<le> t\<close> by (simp add: waitStop_def sleep_def)
  also have "\<dots> =
           (Some (Inr ()),
            ?s1\<lparr>ntrans := ntrans ?s1 + Suc n, status := fst (chip (ntrans ?s1 + n)),
              events := events ?s1 @ polls chip t (ntrans ?s1) n @ [ReadInt ''VACTUAL'' 0],
              lastwritten := (lastwritten ?s1)(''VACTUAL'' \<mapsto> 0)\<rparr>)"
    using assms by (intro waitStop_loop_zero) simp_all
  also have "\<dots> =
           (Some (Inr ()),
            s\<lparr>ntrans := ntrans s + Suc n, status := fst (chip (ntrans s + n)),
              events := events s @ Sleep t # polls chip t (ntrans s) n @ [ReadInt ''VACTUAL'' 0],
              lastwritten := (lastwritten s)(''VACTUAL'' \<mapsto> 0)\<rparr>)"
    by (cases s) simp
  finally show ?thesis .
qed

lemma waitStop_running:
  assumes "0 \<le> t" and "\<forall>i<fuel. snd (chip (ntrans s + i)) \<noteq> 0"
  shows "fst (waitStop fuel chip t s) = None \<and>
         events (snd (waitStop fuel chip t s)) = events s @ Sleep t # polls chip t (ntrans s) fuel \<and>
         enabled (snd (waitStop fuel chip t s)) = enabled s"
proof -
  let ?s1 = "s\<lparr>events := events s @ [Sleep t]\<rparr>"
  have "waitStop fuel chip t s = waitStop_loop fuel chip t ?s1"
    using \<open>0 \<le> t\<close> by (simp add: waitStop_def sleep_def)
  moreover have "\<forall>i<fuel. snd (chip (ntrans ?s1 + i)) \<noteq> 0"
    using assms(2) by simp
  ultimately show ?thesis
    using waitStop_loop_running[OF \<open>0 \<le> t\<close>, of fuel chip ?s1] by simp
qed

lemma first_zero:
  assumes "\<not> (\<forall>i<fuel::nat. v i \<noteq> (0::int))"
  shows "\<exists>n<fuel. (\<forall>i<n. v i \<noteq> 0) \<and> v n = 0"
proof -
  from assms have "\<exists>n. n < fuel \<and> v n = 0" by blast
  then obtain n where n: "n < fuel \<and> v n = 0" and least: "\<forall>m<n. \<not> (m < fuel \<and> v m = 0)"
    using exists_least_iff[of "\<lambda>n. n < fuel \<and> v n = 0"] by blast
  from n least have "\<forall>i<n. v i \<noteq> 0"
    by (metis less_trans)
  with n show ?thesis by blast
qed

text \<open>
  Claim C8. \<^verbatim>\<open>waitStop(ticktime)\<close> with a non-negative \<^verbatim>\<open>ticktime\<close> first sleeps, then
  reads VACTUAL again and again, sleeping between two reads. When the first reading of
  zero is the \<open>n\<close>-th one, the call returns right after it. As long as every reading so
  far is nonzero the call has not returned, whatever the number of readings. A call
  that has returned has read zero last.
\<close>

theorem waitStop_polls_until_zero:
  assumes "0 \<le> t"
  shows "(\<forall>n<fuel. (\<forall>i<n. snd (chip (ntrans s + i)) \<noteq> 0) \<longrightarrow> snd (chip (ntrans s + n)) = 0 \<longrightarrow>
            fst (waitStop fuel chip t s) = Some (Inr ()) \<and>
            events (snd (waitStop fuel chip t s)) =
              events s @ Sleep t # polls chip t (ntrans s) n @ [ReadInt ''VACTUAL'' 0]) \<and>
         ((\<forall>i<fuel. snd (chip (ntrans s + i)) \<noteq> 0) \<longrightarrow>
            fst (waitStop fuel chip t s) = None \<and>
            events (snd (waitStop fuel chip t s)) =
              events s @ Sleep t # polls chip t (ntrans s) fuel) \<and>
         (fst (waitStop fuel chip t s) = Some (Inr ()) \<longrightarrow>
            (\<exists>es. events (snd (waitStop fuel chip t s)) = es @ [ReadInt ''VACTUAL'' 0]))"
proof (intro conjI allI impI)
  fix n
  assume "n < fuel" "\<forall>i<n. snd (chip (ntrans s + i)) \<noteq> 0" "snd (chip (ntrans s + n)) = 0"
  from waitStop_zero[OF assms this(2,3,1)]
  show "fst (waitStop fuel chip t s) = Some (Inr ())"
    and "events (snd (waitStop fuel chip t s)) =
           events s @ Sleep t # polls chip t (ntrans s) n @ [ReadInt ''VACTUAL'' 0]"
    by simp_all
next
  assume "\<forall>i<fuel. snd (chip (ntrans s + i)) \<noteq> 0"
  from waitStop_running[OF assms this]
  show "fst (waitStop fuel chip t s) = None"
    and "events (snd (waitStop fuel chip t s)) =
           events s @ Sleep t # polls chip t (ntrans s) fuel"
    by simp_all
next
  assume ret: "fst (waitStop fuel chip t s) = Some (Inr ())"
  have "\<not> (\<forall>i<fuel. snd (chip (ntrans s + i)) \<noteq> 0)"
    using waitStop_running[OF assms, of fuel chip s] ret by auto
  from first_zero[OF this] obtain n where "n < fuel"
    "\<forall>i<n. snd (chip (ntrans s + i)) \<noteq> 0" "snd (chip (ntrans s + n)) = 0"
    by blast
  from waitStop_zero[OF assms this(2,3,1)]
  have "events (snd (waitStop fuel chip t s)) =
          (events s @ Sleep t # polls chip t (ntrans s) n) @ [ReadInt ''VACTUAL'' 0]"
    by simp
  then show "\<exists>es. events (snd (waitStop fuel chip t s)) = es @ [ReadInt ''VACTUAL'' 0]"
    by blast
qed

lemma chip1_answers:
  "chip1 15 = (1, 4242)" "chip1 16 = (1, 0)" "chip1 17 = (1, 0)" "chip1 18 = (1, 0)"
  "chip1 19 = (1, 5)" "chip1 20 = (1, 3)" "chip1 21 = (0, 0)"
  by (simp_all add: chip1_def script_def nth_append)

theorem waitStop_polls_until_zero_witness:
  "(0 :: rat) \<le> 1 / 10 \<and>
   fst (waitStop 5 chip1 (1 / 10) session0) = Some (Inr ()) \<and>
   events (snd (waitStop 5 chip1 (1 / 10) session0)) =
     events session0 @
     [Sleep (1 / 10), ReadInt ''VACTUAL'' 4242, Sleep (1 / 10), ReadInt ''VACTUAL'' 0] \<and>
   fst (waitStop 1 chip1 (1 / 10) session0) = None"
proof -
  have t: "(0 :: rat) \<le> 1 / 10" by simp
  have nt: "ntrans session0 = 15" by (simp add: session0_def)
  have "(1::nat) < 5" "\<forall>i<1::nat. snd (chip1 (ntrans session0 + i)) \<noteq> 0"
    "snd (chip1 (ntrans session0 + 1)) = 0"
    by (simp_all add: nt chip1_answers)
  with waitStop_polls_until_zero[OF t, of 5 chip1 session0]
  have "fst (waitStop 5 chip1 (1 / 10) session0) = Some (Inr ()) \<and>
        events (snd (waitStop 5 chip1 (1 / 10) session0)) =
          events session0 @ Sleep (1 / 10) # polls chip1 (1 / 10) (ntrans session0) 1 @
            [ReadInt ''VACTUAL'' 0]"
    by blast
  moreover have "\<forall>i<1::nat. snd (chip1 (ntrans session0 + i)) \<noteq> 0"
    by (simp add: nt chip1_answers)
  with waitStop_polls_until_zero[OF t, of 1 chip1 session0]
  have "fst (waitStop 1 chip1 (1 / 10) session0) = None"
    by blast
  ultimately show ?thesis
    by (simp add: polls_Suc polls_0 nt chip1_answers)
qed

section \<open>stop\<close>

lemma stop_prefix:
  fixes s :: tmc5130 and chip :: chip
  defines "x \<equiv> snd (chip (ntrans s))"
  defines "s4 \<equiv> writeInt chip ''RAMPMODE'' 0
                  (writeInt chip ''VMAX'' (maxV (writeInt chip ''XTARGET'' (fst (readInt chip ''XACTUAL'' s)) (snd (readInt chip ''XACTUAL'' s))))
                     (writeInt chip ''XTARGET'' (fst (readInt chip ''XACTUAL'' s)) (snd (readInt chip ''XACTUAL'' s))))"
  shows "ntrans s4 = ntrans s + 4"
    and "events s4 = events s @ [ReadInt ''XACTUAL'' x, WriteInt ''XTARGET'' x,
                                 WriteInt ''VMAX'' (maxV s), WriteInt ''RAMPMODE'' 0]"
    and "enabled s4 = enabled s"
    and "lastwritten s4 ''XTARGET'' = Some x"
    and "stop fuel chip s =
           (case waitStop fuel chip (1 / 10) s4 of
              (Some (Inr _), s5) \<Rightarrow> (Some (Inr ()), enableOutput False s5)
            | (r, s5) \<Rightarrow> (r, s5))"
  by (simp_all add: s4_def x_def readInt_eq writeInt_eq stop_def Let_def)


lemma stop_returns:
  assumes "\<forall>i<n. snd (chip (ntrans s + 4 + i)) \<noteq> 0"
    and "snd (chip (ntrans s + 4 + n)) = 0" and "n < fuel"
  shows "fst (stop fuel chip s) = Some (Inr ())"
    and "events (snd (stop fuel chip s)) =
           events s @
           [ReadInt ''XACTUAL'' (snd (chip (ntrans s))),
            WriteInt ''XTARGET'' (snd (chip (ntrans s))),
            WriteInt ''VMAX'' (maxV s), WriteInt ''RAMPMODE'' 0, Sleep (1 / 10)] @
           polls chip (1 / 10) (ntrans s + 4) n @
           [ReadInt ''VACTUAL'' 0, EnableOutput False]"
    and "\<not> enabled (snd (stop fuel chip s))"
    and "lastwritten (snd (stop fuel chip s)) ''XTARGET'' = Some (snd (chip (ntrans s)))"
proof -
  define s4 where "s4 = writeInt chip ''RAMPMODE'' 0
                  (writeInt chip ''VMAX'' (maxV (writeInt chip ''XTARGET'' (fst (readInt chip ''XACTUAL'' s)) (snd (readInt chip ''XACTUAL'' s))))
                     (writeInt chip ''XTARGET'' (fst (readInt chip ''XACTUAL'' s)) (snd (readInt chip ''XACTUAL'' s))))"
  note p = stop_prefix[where chip = chip and s = s, folded s4_def]
  have t: "(0 :: rat) \<le> 1 / 10" by simp
  from assms have "\<forall>i<n. snd (chip (ntrans s4 + i)) \<noteq> 0" "snd (chip (ntrans s4 + n)) = 0"
    by (simp_all add: p(1))
  from waitStop_zero[OF t this \<open>n < fuel\<close>]
  have w: "waitStop fuel chip (1 / 10) s4 =
           (Some (Inr ()),
            s4\<lparr>ntrans := ntrans s4 + Suc n, status := fst (chip (ntrans s4 + n)),
              events := events s4 @ Sleep (1 / 10) # polls chip (1 / 10) (ntrans s4) n @ [ReadInt ''VACTUAL'' 0],
              lastwritten := (lastwritten s4)(''VACTUAL'' \<mapsto> 0)\<rparr>)" .
  show "fst (stop fuel chip s) = Some (Inr ())"
    by (simp add: p(5) w)
  show "events (snd (stop fuel chip s)) =
           events s @
           [ReadInt ''XACTUAL'' (snd (chip (ntrans s))),
            WriteInt ''XTARGET'' (snd (chip (ntrans s))),
            WriteInt ''VMAX'' (maxV s), WriteInt ''RAMPMODE'' 0, Sleep (1 / 10)] @
           polls chip (1 / 10) (ntrans s + 4) n @
           [ReadInt ''VACTUAL'' 0, EnableOutput False]"
    by (simp add: p(5) w enableOutput_def p(1) p(2))
  show "\<not> enabled (snd (stop fuel chip s))"
    by (simp add: p(5) w enableOutput_def)
  show "lastwritten (snd (stop fuel chip s)) ''XTARGET'' = Some (snd (chip (ntrans s)))"
    by (simp add: p(5) w enableOutput_def p(4))
qed

lemma stop_running:
  assumes "\<forall>i<fuel. snd (chip (ntrans s + 4 + i)) \<noteq> 0"
  shows "fst (stop fuel chip s) = None"
    and "events (snd (stop fuel chip s)) =
           events s @
           [ReadInt ''XACTUAL'' (snd (chip (ntrans s))),
            WriteInt ''XTARGET'' (snd (chip (ntrans s))),
            WriteInt ''VMAX'' (maxV s), WriteInt ''RAMPMODE'' 0, Sleep (1 / 10)] @
           polls chip (1 / 10) (ntrans s + 4) fuel"
    and "enabled (snd (stop fuel chip s)) = enabled s"
proof -
  define s4 where "s4 = writeInt chip ''RAMPMODE'' 0
                  (writeInt chip ''VMAX'' (maxV (writeInt chip ''XTARGET'' (fst (readInt chip ''XACTUAL'' s)) (snd (readInt chip ''XACTUAL'' s))))
                     (writeInt chip ''XTARGET'' (fst (readInt chip ''XACTUAL'' s)) (snd (readInt chip ''XACTUAL'' s))))"
  note p = stop_prefix[where chip = chip and s = s, folded s4_def]
  have t: "(0 :: rat) \<le> 1 / 10" by simp
  from assms have "\<forall>i<fuel. snd (chip (ntrans s4 + i)) \<noteq> 0"
    by (simp add: p(1))
  note w = waitStop_running[OF t this]
  obtain r s5 where r: "waitStop fuel chip (1 / 10) s4 = (r, s5)"
    by (cases "waitStop fuel chip (1 / 10) s4")
  with w have "r = None" "events s5 = events s4 @ Sleep (1 / 10) # polls chip (1 / 10) (ntrans s4) fuel"
    "enabled s5 = enabled s4"
    by simp_all
  with r show "fst (stop fuel chip s) = None"
    and "events (snd (stop fuel chip s)) =
           events s @
           [ReadInt ''XACTUAL'' (snd (chip (ntrans s))),
            WriteInt ''XTARGET'' (snd (chip (ntrans s))),
            WriteInt ''VMAX'' (maxV s), WriteInt ''RAMPMODE'' 0, Sleep (1 / 10)] @
           polls chip (1 / 10) (ntrans s + 4) fuel"
    and "enabled (snd (stop fuel chip s)) = enabled s"
    by (simp_all add: p)
qed

text \<open>
  Claim C3. \<^verbatim>\<open>stop()\<close> reads XACTUAL, writes the value read to XTARGET, writes
  \<open>maxV\<close> to VMAX and 0 to RAMPMODE, and then polls VACTUAL every 0.1 s. When the first
  reading of zero is the \<open>n\<close>-th one, the call returns after it, having disabled the
  output last. As long as every reading is nonzero the call has not returned and has not
  touched the enable line. After a call that has returned the output is disabled and
  the value last written to XTARGET is the XACTUAL read at the start of the call.
\<close>

theorem stop_sequence:
  "(\<forall>n<fuel. (\<forall>i<n. snd (chip (ntrans s + 4 + i)) \<noteq> 0) \<longrightarrow>
       snd (chip (ntrans s + 4 + n)) = 0 \<longrightarrow>
       fst (stop fuel chip s) = Some (Inr ()) \<and>
       events (snd (stop fuel chip s)) =
         events s @
         [ReadInt ''XACTUAL'' (snd (chip (ntrans s))),
          WriteInt ''XTARGET'' (snd (chip (ntrans s))),
          WriteInt ''VMAX'' (maxV s), WriteInt ''RAMPMODE'' 0, Sleep (1 / 10)] @
         polls chip (1 / 10) (ntrans s + 4) n @
         [ReadInt ''VACTUAL'' 0, EnableOutput False]) \<and>
   ((\<forall>i<fuel. snd (chip (ntrans s + 4 + i)) \<noteq> 0) \<longrightarrow>
       fst (stop fuel chip s) = None \<and>
       events (snd (stop fuel chip s)) =
         events s @
         [ReadInt ''XACTUAL'' (snd (chip (ntrans s))),
          WriteInt ''XTARGET'' (snd (chip (ntrans s))),
          WriteInt ''VMAX'' (maxV s), WriteInt ''RAMPMODE'' 0, Sleep (1 / 10)] @
         polls chip (1 / 10) (ntrans s + 4) fuel \<and>
       enabled (snd (stop fuel chip s)) = enabled s) \<and>
   (fst (stop fuel chip s) = Some (Inr ()) \<longrightarrow>
       \<not> enabled (snd (stop fuel chip s)) \<and>
       lastwritten (snd (stop fuel chip s)) ''XTARGET'' = Some (snd (chip (ntrans s))))"
proof (intro conjI allI impI)
  fix n
  assume "n < fuel" "\<forall>i<n. snd (chip (ntrans s + 4 + i)) \<noteq> 0"
    "snd (chip (ntrans s + 4 + n)) = 0"
  note r = stop_returns[OF this(2,3,1)]
  show "fst (stop fuel chip s) = Some (Inr ())" by (rule r(1))
  show "events (snd (stop fuel chip s)) =
         events s @
         [ReadInt ''XACTUAL'' (snd (chip (ntrans s))),
          WriteInt ''XTARGET'' (snd (chip (ntrans s))),
          WriteInt ''VMAX'' (maxV s), WriteInt ''RAMPMODE'' 0, Sleep (1 / 10)] @
         polls chip (1 / 10) (ntrans s + 4) n @
         [ReadInt ''VACTUAL'' 0, EnableOutput False]" by (rule r(2))
next
  assume "\<forall>i<fuel. snd (chip (ntrans s + 4 + i)) \<noteq> 0"
  note r = stop_running[OF this]
  show "fst (stop fuel chip s) = None" by (rule r(1))
  show "events (snd (stop fuel chip s)) =
         events s @
         [ReadInt ''XACTUAL'' (snd (chip (ntrans s))),
          WriteInt ''XTARGET'' (snd (chip (ntrans s))),
          WriteInt ''VMAX'' (maxV s), WriteInt ''RAMPMODE'' 0, Sleep (1 / 10)] @
         polls chip (1 / 10) (ntrans s + 4) fuel" by (rule r(2))
  show "enabled (snd (stop fuel chip s)) = enabled s" by (rule r(3))
next
  assume ret: "fst (stop fuel chip s) = Some (Inr ())"
  have "\<not> (\<forall>i<fuel. snd (chip (ntrans s + 4 + i)) \<noteq> 0)"
    using stop_running(1)[of fuel chip s] ret by auto
  from first_zero[OF this] obtain n where n: "n < fuel"
    "\<forall>i<n. snd (chip (ntrans s + 4 + i)) \<noteq> 0" "snd (chip (ntrans s + 4 + n)) = 0"
    by blast
  note r = stop_returns[OF n(2,3,1)]
  show "\<not> enabled (snd (stop fuel chip s))" by (rule r(3))
  show "lastwritten (snd (stop fuel chip s)) ''XTARGET'' = Some (snd (chip (ntrans s)))"
    by (rule r(4))
qed

theorem stop_sequence_witness:
  "fst (stop 5 chip1 session0) = Some (Inr ()) \<and>
   events (snd (stop 5 chip1 session0)) =
     events session0 @
     [ReadInt ''XACTUAL'' 4242, WriteInt ''XTARGET'' 4242, WriteInt ''VMAX'' 179180,
      WriteInt ''RAMPMODE'' 0, Sleep (1 / 10), ReadInt ''VACTUAL'' 5, Sleep (1 / 10),
      ReadInt ''VACTUAL'' 3, Sleep (1 / 10), ReadInt ''VACTUAL'' 0, EnableOutput False] \<and>
   \<not> enabled (snd (stop 5 chip1 session0)) \<and>
   lastwritten (snd (stop 5 chip1 session0)) ''XTARGET'' = Some 4242 \<and>
   fst (stop 2 chip1 session0) = None \<and>
   enabled (snd (stop 2 chip1 session0)) = enabled session0"
proof -
  have nt: "ntrans session0 = 15" and mv: "maxV session0 = 179180"
    by (simp_all add: session0_def)
  have a: "(2::nat) < 5" "\<forall>i<2::nat. snd (chip1 (ntrans session0 + 4 + i)) \<noteq> 0"
    "snd (chip1 (ntrans session0 + 4 + 2)) = 0"
    by (simp_all add: nt chip1_answers less_Suc_eq numeral_2_eq_2)
  with stop_sequence[of 5 chip1 session0]
  have "fst (stop 5 chip1 session0) = Some (Inr ()) \<and>
       events (snd (stop 5 chip1 session0)) =
         events session0 @
         [ReadInt ''XACTUAL'' (snd (chip1 (ntrans session0))),
          WriteInt ''XTARGET'' (snd (chip1 (ntrans session0))),
          WriteInt ''VMAX'' (maxV session0), WriteInt ''RAMPMODE'' 0, Sleep (1 / 10)] @
         polls chip1 (1 / 10) (ntrans session0 + 4) 2 @
         [ReadInt ''VACTUAL'' 0, EnableOutput False]"
    by blast
  moreover from this stop_sequence[of 5 chip1 session0]
  have "\<not> enabled (snd (stop 5 chip1 session0)) \<and>
       lastwritten (snd (stop 5 chip1 session0)) ''XTARGET'' = Some (snd (chip1 (ntrans session0)))"
    by blast
  moreover from a(2) stop_sequence[of 2 chip1 session0]
  have "fst (stop 2 chip1 session0) = None \<and>
        enabled (snd (stop 2 chip1 session0)) = enabled session0"
    by blast
  ultimately show ?thesis
    by (simp add: nt mv chip1_answers polls_Suc polls_0 numeral_2_eq_2)
qed

section \<open>goto\<close>

lemma xtarget_writes_append [simp]:
  "xtarget_writes (es @ es') = xtarget_writes es @ xtarget_writes es'"
  by (simp add: xtarget_writes_def)

lemma xtarget_writes_Nil [simp]: "xtarget_writes [] = []"
  by (simp add: xtarget_writes_def)

lemma xtarget_writes_Cons [simp]:
  "xtarget_writes (e # es) = xtarget_written e @ xtarget_writes es"
  by (simp add: xtarget_writes_def)

lemma xtarget_written_batch_R: "xtarget_written (ReadWriteMultiple ops ''R'') = []"
  by (cases ops) simp_all

lemma sleep_xtarget:
  "sleep t s = (r, s') \<Longrightarrow> xtarget_writes (events s') = xtarget_writes (events s)"
  by (auto simp: sleep_def split: if_splits)

lemma readWriteMultiple_R_xtarget:
  assumes "readWriteMultiple chip ops ''R'' s = (r, s')"
  shows "xtarget_writes (events s') = xtarget_writes (events s)"
proof (cases r)
  case (Inl e)
  with assms have "s' = s"
    by (auto simp: readWriteMultiple_def Let_def split: if_splits prod.splits)
  then show ?thesis by simp
next
  case (Inr rs)
  with assms readWriteMultiple_fields(1)[of chip ops "''R''" s rs s'] show ?thesis
    by (simp add: xtarget_written_batch_R del: xtarget_written.simps)
qed

lemma wait_reached_loop_xtarget:
  "wait_reached_loop fuel chip def t reads s = (r, s') \<Longrightarrow>
     xtarget_writes (events s') = xtarget_writes (events s)"
proof (induction fuel arbitrary: reads s r s')
  case 0
  then show ?case by simp
next
  case (Suc fuel)
  show ?case
  proof (cases "status s AND atPosition def = 0")
    case False
    with Suc.prems show ?thesis by simp
  next
    case True
    note at = True
    show ?thesis
    proof (cases "getitem (map_of reads) ''XACTUAL''")
      case (Inl e)
      with Suc.prems at show ?thesis by simp
    next
      case x: (Inr x)
      show ?thesis
      proof (cases "truediv (of_int x) (ustepsPerRev s)")
        case (Inl e)
        with Suc.prems at x show ?thesis by simp
      next
        case loc: (Inr loc)
        show ?thesis
        proof (cases "getitem (map_of reads) ''VACTUAL''")
          case (Inl e)
          with Suc.prems at x loc show ?thesis by simp
        next
          case v: (Inr v)
          show ?thesis
          proof (cases "getitem (map_of reads) ''RAMPSTAT''")
            case (Inl e)
            with Suc.prems at x loc v show ?thesis by (auto simp: print_def)
          next
            case rs: (Inr rs)
            let ?p = "print (PrintRampStatus (flagsToText (rampstatBits def) rs))
                        (print (PrintLoc loc v) s)"
            have p: "xtarget_writes (events ?p) = xtarget_writes (events s)"
              by (simp add: print_def)
            obtain r1 s1 where sl: "sleep t ?p = (r1, s1)" by (cases "sleep t ?p")
            note s1 = sleep_xtarget[OF sl]
            show ?thesis
            proof (cases r1)
              case (Inl e)
              with Suc.prems at x loc v rs sl s1 p show ?thesis by simp
            next
              case r1: (Inr u)
              obtain r2 s2 where rw: "readWriteMultiple chip reads ''R'' s1 = (r2, s2)"
                by (cases "readWriteMultiple chip reads ''R'' s1")
              note s2 = readWriteMultiple_R_xtarget[OF rw]
              show ?thesis
              proof (cases r2)
                case (Inl e)
                with Suc.prems at x loc v rs sl r1 rw s1 s2 p show ?thesis by simp
              next
                case (Inr reads')
                with Suc.prems at x loc v rs sl r1 rw
                have "wait_reached_loop fuel chip def t reads' s2 = (r, s')" by simp
                from Suc.IH[OF this] s1 s2 p show ?thesis by simp
              qed
            qed
          qed
        qed
      qed
    qed
  qed
qed

lemma wait_reached_xtarget:
  assumes "wait_reached fuel chip def t s = (r, s')"
  shows "xtarget_writes (events s') = xtarget_writes (events s)"
proof -
  obtain r1 s1 where sl: "sleep t s = (r1, s1)" by (cases "sleep t s")
  note s1 = sleep_xtarget[OF sl]
  show ?thesis
  proof (cases r1)
    case (Inl e)
    with assms sl s1 show ?thesis by (simp add: wait_reached_def)
  next
    case r1: (Inr u)
    obtain r2 s2 where rw: "readWriteMultiple chip reads0 ''R'' s1 = (r2, s2)"
      by (cases "readWriteMultiple chip reads0 ''R'' s1")
    note s2 = readWriteMultiple_R_xtarget[OF rw]
    show ?thesis
    proof (cases r2)
      case (Inl e)
      with assms sl r1 rw s1 s2 show ?thesis by (simp add: wait_reached_def)
    next
      case r2: (Inr reads)
      let ?p = "print (PrintCheckStatus (atPosition def)) s2"
      obtain r3 s3 where lp: "wait_reached_loop fuel chip def t reads ?p = (r3, s3)"
        by (cases "wait_reached_loop fuel chip def t reads ?p")
      from wait_reached_loop_xtarget[OF lp] s1 s2
      have s3: "xtarget_writes (events s3) = xtarget_writes (events s)"
        by (simp add: print_def)
      from assms sl r1 rw r2 lp have "events s' = events s3 \<or>
          (\<exists>e. events s' = events s3 @ [e] \<and> xtarget_written e = [])"
        by (auto simp: wait_reached_def print_def split: option.splits sum.splits)
      with s3 show ?thesis by auto
    qed
  qed
qed

lemma goto_nowait:
  "goto fuel chip def targetpos False s =
     (Some (Inr ()),
      enableOutput False
        (writeInt chip ''XTARGET'' (py_int (ustepsPerRev s * targetpos)) (enableOutput True s)))"
  by (simp add: goto_def Let_def enableOutput_def)

text \<open>
  Claim C6, as the code has it. Every call \<^verbatim>\<open>goto(targetpos, wait)\<close> writes XTARGET
  exactly once, and the value written is \<open>ustepsPerRev \<times> targetpos\<close> truncated towards
  zero (\<^verbatim>\<open>int()\<close>). This holds for returning, raising and still-waiting calls alike.
\<close>

theorem goto_writes_truncated_target:
  "xtarget_writes (events (snd (goto fuel chip def targetpos wait s))) =
     xtarget_writes (events s) @ [py_int (ustepsPerRev s * targetpos)]"
proof (cases wait)
  case False
  then show ?thesis
    by (simp add: goto_nowait enableOutput_def writeInt_eq)
next
  case True
  let ?s2 = "writeInt chip ''XTARGET'' (py_int (ustepsPerRev s * targetpos)) (enableOutput True s)"
  have s2: "xtarget_writes (events ?s2) =
              xtarget_writes (events s) @ [py_int (ustepsPerRev s * targetpos)]"
    by (simp add: enableOutput_def writeInt_eq)
  obtain r s3 where w: "wait_reached fuel chip def (1 / 2) ?s2 = (r, s3)"
    by (cases "wait_reached fuel chip def (1 / 2) ?s2")
  note s3 = wait_reached_xtarget[OF w]
  have "ustepsPerRev (enableOutput True s) = ustepsPerRev s"
    by (simp add: enableOutput_def)
  with True w have "events (snd (goto fuel chip def targetpos wait s)) = events s3 \<or>
     events (snd (goto fuel chip def targetpos wait s)) = events s3 @ [EnableOutput False]"
    by (auto simp: goto_def Let_def enableOutput_def split: option.splits sum.splits)
  with s3 s2 show ?thesis by auto
qed

text \<open>
  Counterexample to claim C6 as stated: on the default object \<open>ustepsPerRev\<close> is
  131072 / 3 (43690.67); \<^verbatim>\<open>goto(1, wait=False)\<close> writes 43690 to XTARGET, while the
  nearest integer is 43691.
\<close>

theorem goto_rounds_counterexample:
  "init 15000000 motor28BYJ_48 None \<lparr>connected = True\<rparr> (script []) world0 = Inr session0 \<and>
   xtarget_writes (events (snd (goto 0 (script []) motordef0 1 False session0))) = [43690] \<and>
   ustepsPerRev session0 * 1 = 131072 / 3 \<and>
   py_round (ustepsPerRev session0 * 1) = 43691"
proof -
  have u: "ustepsPerRev session0 = 131072 / 3"
    by (simp add: session0_def)
  have "py_int (131072 / 3) = 43690"
    by (rule py_int_nonneg) simp_all
  moreover have "py_round (131072 / 3) = 43691"
    by (rule py_round_near) simp_all
  moreover have "xtarget_writes (events session0) = []"
    by (simp add: session0_def regsettings_def regactions_def)
  ultimately show ?thesis
    by (simp add: goto_nowait enableOutput_def writeInt_eq u init_default)
qed

text \<open>
  Claim C2, evaluated on the code. On the default object \<^verbatim>\<open>goto(2, wait=False)\<close>
  returns without polling after three events: output enabled, XTARGET written, output
  disabled. The motor-driver output is off when the call returns.
\<close>

theorem goto_nowait_disables_output:
  "init 15000000 motor28BYJ_48 None \<lparr>connected = True\<rparr> (script []) world0 = Inr session0 \<and>
   fst (goto 0 (script []) motordef0 2 False session0) = Some (Inr ()) \<and>
   events (snd (goto 0 (script []) motordef0 2 False session0)) =
     events session0 @ [EnableOutput True, WriteInt ''XTARGET'' 87381, EnableOutput False] \<and>
   enabled (snd (goto 0 (script []) motordef0 2 False session0)) = False"
proof -
  have u: "ustepsPerRev session0 = 131072 / 3"
    by (simp add: session0_def)
  have "py_int (131072 / 3 * 2) = 87381"
    by (rule py_int_nonneg) simp_all
  then show ?thesis
    by (simp add: goto_nowait enableOutput_def writeInt_eq u init_default)
qed

end
